theory Spec2Isabelle
  imports Complex_Main
begin

section \<open>Numbers\<close>

text \<open>
  The calculator works on JavaScript numbers. Currency amounts and rates are modelled as
  \<^typ>\<open>real\<close>: the arithmetic of the engine (\<open>+\<close>, \<open>-\<close>, \<open>*\<close>, \<open>/\<close>, \<open>Math.min\<close>,
  \<open>Math.max\<close>, \<open>Math.pow\<close>, \<open>Math.log\<close>) is read as exact arithmetic on finite numbers, so
  the rounding of IEEE doubles is outside the model. The two non-finite values the source
  relies on are modelled where they occur: \<open>Infinity\<close> as the upper end of the last
  bracket and as the "never" value of the backsolver, \<open>NaN\<close> as the failure of \<open>Number\<close>.
\<close>

section \<open>Tax tables\<close>

text \<open>
  A bracket \<open>{ rate, min, max }\<close>; \<open>max\<close> is \<open>None\<close> for \<open>Infinity\<close>.
\<close>

record bracket =
  rate :: real
  bmin :: real
  bmax :: "real option"

definition mk_bracket :: "real \<Rightarrow> real \<Rightarrow> real option \<Rightarrow> bracket" where
  "mk_bracket r lo hi = \<lparr>rate = r, bmin = lo, bmax = hi\<rparr>"

definition FEDERAL_BRACKETS_MFJ :: "bracket list" where
  "FEDERAL_BRACKETS_MFJ =
    [mk_bracket (10/100) 0 (Some 23850), mk_bracket (12/100) 23851 (Some 96950),
     mk_bracket (22/100) 96951 (Some 206700), mk_bracket (24/100) 206701 (Some 394600),
     mk_bracket (32/100) 394601 (Some 501050), mk_bracket (35/100) 501051 (Some 751600),
     mk_bracket (37/100) 751601 None]"

text \<open>\<open>LTCG_BRACKETS_MFJ[0].max\<close> and \<open>LTCG_BRACKETS_MFJ[1].max\<close>.\<close>

definition zeroRateMax :: real where
  "zeroRateMax = 96950"

definition fifteenRateMax :: real where
  "fifteenRateMax = 583750"

definition FEDERAL_STANDARD_DEDUCTION_MFJ :: real where
  "FEDERAL_STANDARD_DEDUCTION_MFJ = 31500"

definition SALT_CAP :: real where
  "SALT_CAP = 40000"

definition FEDERAL_MORTGAGE_DEBT_LIMIT :: real where
  "FEDERAL_MORTGAGE_DEBT_LIMIT = 750000"

definition CA_MORTGAGE_DEBT_LIMIT :: real where
  "CA_MORTGAGE_DEBT_LIMIT = 1000000"

definition CA_SDI_RATE :: real where
  "CA_SDI_RATE = 13/1000"

definition NIIT_RATE :: real where
  "NIIT_RATE = 38/1000"

definition NIIT_THRESHOLD_MFJ :: real where
  "NIIT_THRESHOLD_MFJ = 250000"

text \<open>\<open>STATE_STANDARD_DEDUCTIONS_MFJ[state] || 0\<close>.\<close>

definition STATE_STANDARD_DEDUCTIONS_MFJ :: "string \<Rightarrow> real" where
  "STATE_STANDARD_DEDUCTIONS_MFJ state =
    (if state = ''California'' then 10404
     else if state = ''North Carolina'' then 25500
     else 0)"

text \<open>\<open>STATE_TAX_DATA[state] || []\<close>.\<close>

definition STATE_TAX_DATA :: "string \<Rightarrow> bracket list" where
  "STATE_TAX_DATA state =
    (if state = ''California'' then
       [mk_bracket (1/100) 0 (Some 22108), mk_bracket (2/100) 22109 (Some 52420),
        mk_bracket (4/100) 52421 (Some 82734), mk_bracket (6/100) 82735 (Some 114902),
        mk_bracket (8/100) 114903 (Some 145194), mk_bracket (93/1000) 145195 (Some 742568),
        mk_bracket (103/1000) 742569 (Some 891080), mk_bracket (113/1000) 891081 (Some 1485132),
        mk_bracket (123/1000) 1485133 None]
     else if state = ''Colorado'' then [mk_bracket (44/1000) 0 None]
     else if state = ''Ohio'' then
       [mk_bracket 0 0 (Some 26050), mk_bracket (275/10000) 26051 (Some 100000),
        mk_bracket (35/1000) 100001 None]
     else if state = ''North Carolina'' then [mk_bracket (425/10000) 0 None]
     else [])"

section \<open>Progressive tax\<close>

text \<open>
  \<open>Math.min(remainingIncome, bracket.max - (bracket.min > 0 ? bracket.min - 1 : 0))\<close>;
  with \<open>bracket.max = Infinity\<close> the minimum is \<open>remainingIncome\<close>.
\<close>

definition taxableInBracket :: "real \<Rightarrow> bracket \<Rightarrow> real" where
  "taxableInBracket remainingIncome b =
    (case bmax b of
       None \<Rightarrow> remainingIncome
     | Some m \<Rightarrow> min remainingIncome (m - (if bmin b > 0 then bmin b - 1 else 0)))"

text \<open>
  The \<open>for\<close> loop of \<open>calculateTax\<close> over the brackets, with its two variables \<open>tax\<close>
  and \<open>remainingIncome\<close>; \<open>break\<close> returns the tax accumulated so far.
\<close>

fun calculateTax_loop :: "real \<Rightarrow> real \<Rightarrow> bracket list \<Rightarrow> real" where
  "calculateTax_loop tax remainingIncome [] = tax"
| "calculateTax_loop tax remainingIncome (b # bs) =
    (if remainingIncome \<le> 0 then tax
     else if taxableInBracket remainingIncome b > 0
       then calculateTax_loop (tax + taxableInBracket remainingIncome b * rate b)
              (remainingIncome - taxableInBracket remainingIncome b) bs
       else calculateTax_loop tax remainingIncome bs)"

definition calculateTax :: "real \<Rightarrow> bracket list \<Rightarrow> real" where
  "calculateTax income brackets = calculateTax_loop 0 income brackets"

text \<open>The largest rate of a table (0 for the empty table), used to bound the slope.\<close>

fun maxRate :: "bracket list \<Rightarrow> real" where
  "maxRate [] = 0"
| "maxRate (b # bs) = max (rate b) (maxRate bs)"

section \<open>Capital-gains stacking\<close>

text \<open>
  The stacking block occurs three times in the source with the same text (buy scenario,
  rent scenario, \<open>calcMonthlyTakeHomeDelta\<close>); its locals are functions of the ordinary
  income and the long-term gains it is run on.
\<close>

definition taxableAtZero :: "real \<Rightarrow> real \<Rightarrow> real" where
  "taxableAtZero ordinaryIncome longTermGains =
    min longTermGains (max 0 (zeroRateMax - ordinaryIncome))"

definition taxableAtFifteen :: "real \<Rightarrow> real \<Rightarrow> real" where
  "taxableAtFifteen ordinaryIncome longTermGains =
    min (longTermGains - taxableAtZero ordinaryIncome longTermGains)
        (max 0 (fifteenRateMax - max zeroRateMax ordinaryIncome))"

text \<open>\<open>remainingLTCG\<close> after both subtractions.\<close>

definition remainingLTCG :: "real \<Rightarrow> real \<Rightarrow> real" where
  "remainingLTCG ordinaryIncome longTermGains =
    longTermGains - taxableAtZero ordinaryIncome longTermGains
      - taxableAtFifteen ordinaryIncome longTermGains"

text \<open>The amount the last \<open>if\<close> taxes at 20%: \<open>remainingLTCG\<close> when positive, nothing otherwise.\<close>

definition taxableAtTwenty :: "real \<Rightarrow> real \<Rightarrow> real" where
  "taxableAtTwenty ordinaryIncome longTermGains =
    (if remainingLTCG ordinaryIncome longTermGains > 0
     then remainingLTCG ordinaryIncome longTermGains else 0)"

definition stackedCapitalGainsTax :: "real \<Rightarrow> real \<Rightarrow> real" where
  "stackedCapitalGainsTax ordinaryIncome longTermGains =
    (if remainingLTCG ordinaryIncome longTermGains > 0
     then taxableAtFifteen ordinaryIncome longTermGains * (15/100)
            + remainingLTCG ordinaryIncome longTermGains * (20/100)
     else taxableAtFifteen ordinaryIncome longTermGains * (15/100))"

text \<open>
  The part of a bracket that an income \<open>x\<close> fills: the amount the loop body moves from
  \<open>remainingIncome\<close> into the tax (nothing when the \<open>if\<close> is not taken).
\<close>

definition alloc :: "bracket \<Rightarrow> real \<Rightarrow> real" where
  "alloc b x = max 0 (taxableInBracket x b)"

section \<open>Mortgage amortization\<close>

record scheduleEntry =
  year :: nat
  interest :: real

text \<open>
  The \<open>for\<close> loop of \<open>getInterestSchedule\<close>, \<open>i\<close> counting months while
  \<open>i < years * 12 && balance > 0\<close>; the state is \<open>balance\<close> and the array \<open>yearInterest\<close>.
\<close>

function amort_loop :: "real \<Rightarrow> real \<Rightarrow> nat \<Rightarrow> nat \<Rightarrow> real \<Rightarrow> real list \<Rightarrow> real list" where
  "amort_loop r monthlyPayment years i balance yearInterest =
    (if i < years * 12 \<and> balance > 0 then
       amort_loop r monthlyPayment years (i + 1)
         (balance - (monthlyPayment - balance * r))
         (if i div 12 < years
          then yearInterest[i div 12 := yearInterest ! (i div 12) + balance * r]
          else yearInterest)
     else yearInterest)"
  by pat_completeness auto
termination
  by (relation "measure (\<lambda>(r, monthlyPayment, years, i, balance, yearInterest). years * 12 - i)") auto

declare amort_loop.simps [simp del]

text \<open>
  \<open>monthlyPayment\<close> for \<open>n = 30 * 12\<close> payments. Its denominator vanishes only at
  \<open>annualRate = 0\<close>, which the guard excludes, and at \<open>annualRate = -2400\<close>, where
  JavaScript yields an infinite payment and the division here yields 0.
\<close>

definition monthlyPaymentOf :: "real \<Rightarrow> real \<Rightarrow> real" where
  "monthlyPaymentOf amount r = amount * (r * (1 + r) ^ 360) / ((1 + r) ^ 360 - 1)"

text \<open>The array \<open>yearInterest\<close> when the loop has ended.\<close>

definition yearInterestOf :: "real \<Rightarrow> real \<Rightarrow> nat \<Rightarrow> real list" where
  "yearInterestOf amount annualRate years =
    amort_loop (annualRate / 100 / 12) (monthlyPaymentOf amount (annualRate / 100 / 12))
      years 0 amount (replicate years 0)"

definition getInterestSchedule :: "real \<Rightarrow> real \<Rightarrow> nat \<Rightarrow> scheduleEntry list" where
  "getInterestSchedule amount annualRate years =
    (if amount = 0 \<or> annualRate = 0 then []
     else map (\<lambda>(idx, v). \<lparr>year = idx + 1, interest = v\<rparr>)
            (enumerate 0 (yearInterestOf amount annualRate years)))"

text \<open>\<open>schedule[0]?.interest || 0\<close>.\<close>

definition firstInterest :: "scheduleEntry list \<Rightarrow> real" where
  "firstInterest schedule = (case schedule of [] \<Rightarrow> 0 | e # _ \<Rightarrow> interest e)"

definition calculateMonthlyHousingCost :: "real \<Rightarrow> real \<Rightarrow> real \<Rightarrow> real \<Rightarrow> real" where
  "calculateMonthlyHousingCost amount rate' propTax insurance =
    (if amount = 0 \<or> rate' = 0 then 0
     else monthlyPaymentOf amount (rate' / 100 / 12) + propTax / 12 + insurance / 12)"

section \<open>Scenario evaluation\<close>

text \<open>
  The numeric inputs of \<open>resultsByState\<close> after coercion (\<open>Number(x) || 0\<close>): the household
  values computed once, and the housing values computed per state.
\<close>

record household =
  grossIncome :: real
  shortTermGains :: real
  longTermGains :: real
  hsaDed :: real
  k401Ded :: real
  medicalDed :: real
  otherItemizedVal :: real

record housing =
  mortgageAmountVal :: real
  mortgageRateVal :: real
  propertyTaxVal :: real
  homeInsuranceVal :: real
  localTaxRateVal :: real
  monthlyRentVal :: real

text \<open>
  Each \<open>const\<close> of the computation is a function of the inputs it is computed from:
  \<open>h\<close> the household, \<open>state\<close> the jurisdiction name, \<open>x\<close> the housing inputs.
\<close>

definition totalIncome :: "household \<Rightarrow> real" where
  "totalIncome h = grossIncome h + shortTermGains h + longTermGains h"

definition aboveTheLineDeductions :: "household \<Rightarrow> real" where
  "aboveTheLineDeductions h = k401Ded h + hsaDed h + medicalDed h"

definition agi :: "household \<Rightarrow> real" where
  "agi h = totalIncome h - aboveTheLineDeductions h"

definition ssWageBase :: real where
  "ssWageBase = 182400"

definition ssTax :: "household \<Rightarrow> real" where
  "ssTax h = min (grossIncome h) ssWageBase * (62/1000)"

definition medicareTax :: "household \<Rightarrow> real" where
  "medicareTax h = grossIncome h * (145/10000)"

definition additionalMedicareTax :: "household \<Rightarrow> real" where
  "additionalMedicareTax h = (if agi h > 250000 then (agi h - 250000) * (9/1000) else 0)"

definition ficaTax :: "household \<Rightarrow> real" where
  "ficaTax h = ssTax h + medicareTax h + additionalMedicareTax h"

subsection \<open>Buy scenario\<close>

definition stateAgi :: "household \<Rightarrow> string \<Rightarrow> real" where
  "stateAgi h state = (if state = ''California'' then agi h + hsaDed h else agi h)"

definition stateMortgageDebtLimit :: "string \<Rightarrow> real" where
  "stateMortgageDebtLimit state =
    (if state = ''California'' then CA_MORTGAGE_DEBT_LIMIT else FEDERAL_MORTGAGE_DEBT_LIMIT)"

definition stateDeductibleMortgagePrincipal :: "string \<Rightarrow> housing \<Rightarrow> real" where
  "stateDeductibleMortgagePrincipal state x = min (mortgageAmountVal x) (stateMortgageDebtLimit state)"

definition stateAnnualMortgageInterest :: "string \<Rightarrow> housing \<Rightarrow> real" where
  "stateAnnualMortgageInterest state x =
    firstInterest (getInterestSchedule (stateDeductibleMortgagePrincipal state x) (mortgageRateVal x) 1)"

definition federalDeductibleMortgagePrincipal :: "housing \<Rightarrow> real" where
  "federalDeductibleMortgagePrincipal x = min (mortgageAmountVal x) FEDERAL_MORTGAGE_DEBT_LIMIT"

definition federalAnnualMortgageInterest :: "housing \<Rightarrow> real" where
  "federalAnnualMortgageInterest x =
    firstInterest (getInterestSchedule (federalDeductibleMortgagePrincipal x) (mortgageRateVal x) 1)"

definition stateItemizedDed :: "household \<Rightarrow> string \<Rightarrow> housing \<Rightarrow> real" where
  "stateItemizedDed h state x =
    stateAnnualMortgageInterest state x + propertyTaxVal x + otherItemizedVal h"

definition stateStandardDed :: "string \<Rightarrow> real" where
  "stateStandardDed state = STATE_STANDARD_DEDUCTIONS_MFJ state"

definition stateDeductionToUse :: "household \<Rightarrow> string \<Rightarrow> housing \<Rightarrow> real" where
  "stateDeductionToUse h state x = max (stateItemizedDed h state x) (stateStandardDed state)"

definition stateTaxableIncome :: "household \<Rightarrow> string \<Rightarrow> housing \<Rightarrow> real" where
  "stateTaxableIncome h state x = max 0 (stateAgi h state - stateDeductionToUse h state x)"

definition stateTax :: "household \<Rightarrow> string \<Rightarrow> housing \<Rightarrow> real" where
  "stateTax h state x = calculateTax (stateTaxableIncome h state x) (STATE_TAX_DATA state)"

definition sdiTax :: "household \<Rightarrow> string \<Rightarrow> real" where
  "sdiTax h state = (if state = ''California'' then grossIncome h * CA_SDI_RATE else 0)"

definition localTax :: "household \<Rightarrow> housing \<Rightarrow> real" where
  "localTax h x = (if localTaxRateVal x > 0 then agi h * localTaxRateVal x else 0)"

definition totalSaltPaid :: "household \<Rightarrow> string \<Rightarrow> housing \<Rightarrow> real" where
  "totalSaltPaid h state x = stateTax h state x + propertyTaxVal x + sdiTax h state + localTax h x"

definition cappedSalt :: "household \<Rightarrow> string \<Rightarrow> housing \<Rightarrow> real" where
  "cappedSalt h state x = min (totalSaltPaid h state x) SALT_CAP"

definition totalFederalItemizedDeductions :: "household \<Rightarrow> string \<Rightarrow> housing \<Rightarrow> real" where
  "totalFederalItemizedDeductions h state x =
    federalAnnualMortgageInterest x + cappedSalt h state x + otherItemizedVal h"

definition deductionToUse :: "household \<Rightarrow> string \<Rightarrow> housing \<Rightarrow> real" where
  "deductionToUse h state x =
    max (totalFederalItemizedDeductions h state x) FEDERAL_STANDARD_DEDUCTION_MFJ"

definition federalTaxableIncome :: "household \<Rightarrow> string \<Rightarrow> housing \<Rightarrow> real" where
  "federalTaxableIncome h state x = max 0 (agi h - deductionToUse h state x)"

definition ordinaryIncome :: "household \<Rightarrow> string \<Rightarrow> housing \<Rightarrow> real" where
  "ordinaryIncome h state x = federalTaxableIncome h state x - longTermGains h"

definition ordinaryTax :: "household \<Rightarrow> string \<Rightarrow> housing \<Rightarrow> real" where
  "ordinaryTax h state x = calculateTax (ordinaryIncome h state x) FEDERAL_BRACKETS_MFJ"

definition capitalGainsTax :: "household \<Rightarrow> string \<Rightarrow> housing \<Rightarrow> real" where
  "capitalGainsTax h state x = stackedCapitalGainsTax (ordinaryIncome h state x) (longTermGains h)"

definition netInvestmentIncome :: "household \<Rightarrow> real" where
  "netInvestmentIncome h = shortTermGains h + longTermGains h"

definition niitBase :: "household \<Rightarrow> real" where
  "niitBase h = max 0 (min (netInvestmentIncome h) (agi h - NIIT_THRESHOLD_MFJ))"

definition niit :: "household \<Rightarrow> real" where
  "niit h = niitBase h * NIIT_RATE"

definition totalFederalTax :: "household \<Rightarrow> string \<Rightarrow> housing \<Rightarrow> real" where
  "totalFederalTax h state x = ordinaryTax h state x + capitalGainsTax h state x + niit h"

definition totalTaxBurden :: "household \<Rightarrow> string \<Rightarrow> housing \<Rightarrow> real" where
  "totalTaxBurden h state x =
    totalFederalTax h state x + ficaTax h + stateTax h state x + sdiTax h state + localTax h x"

definition effectiveTaxRate :: "household \<Rightarrow> string \<Rightarrow> housing \<Rightarrow> real" where
  "effectiveTaxRate h state x =
    (if totalIncome h > 0 then (totalTaxBurden h state x / totalIncome h) * 100 else 0)"

definition annualTakeHome :: "household \<Rightarrow> string \<Rightarrow> housing \<Rightarrow> real" where
  "annualTakeHome h state x =
    totalIncome h - totalTaxBurden h state x - k401Ded h - hsaDed h - medicalDed h"

definition monthlyTakeHome :: "household \<Rightarrow> string \<Rightarrow> housing \<Rightarrow> real" where
  "monthlyTakeHome h state x = annualTakeHome h state x / 12"

definition monthlyHousingCost :: "housing \<Rightarrow> real" where
  "monthlyHousingCost x =
    calculateMonthlyHousingCost (mortgageAmountVal x) (mortgageRateVal x)
      (propertyTaxVal x) (homeInsuranceVal x)"

definition monthlyNetCash :: "household \<Rightarrow> string \<Rightarrow> housing \<Rightarrow> real" where
  "monthlyNetCash h state x = monthlyTakeHome h state x - monthlyHousingCost x"

subsection \<open>Rent scenario\<close>

definition rentStateAgi :: "household \<Rightarrow> string \<Rightarrow> real" where
  "rentStateAgi h state = (if state = ''California'' then agi h + hsaDed h else agi h)"

definition rentStateStandardDed :: "string \<Rightarrow> real" where
  "rentStateStandardDed state = STATE_STANDARD_DEDUCTIONS_MFJ state"

definition rentStateTaxableIncome :: "household \<Rightarrow> string \<Rightarrow> real" where
  "rentStateTaxableIncome h state = max 0 (rentStateAgi h state - rentStateStandardDed state)"

definition rentStateTax :: "household \<Rightarrow> string \<Rightarrow> real" where
  "rentStateTax h state = calculateTax (rentStateTaxableIncome h state) (STATE_TAX_DATA state)"

definition rentSdiTax :: "household \<Rightarrow> string \<Rightarrow> real" where
  "rentSdiTax h state = (if state = ''California'' then grossIncome h * CA_SDI_RATE else 0)"

definition rentLocalTax :: "household \<Rightarrow> housing \<Rightarrow> real" where
  "rentLocalTax h x = (if localTaxRateVal x > 0 then agi h * localTaxRateVal x else 0)"

definition rentTotalSaltPaid :: "household \<Rightarrow> string \<Rightarrow> housing \<Rightarrow> real" where
  "rentTotalSaltPaid h state x = rentStateTax h state + rentSdiTax h state + rentLocalTax h x"

definition rentCappedSalt :: "household \<Rightarrow> string \<Rightarrow> housing \<Rightarrow> real" where
  "rentCappedSalt h state x = min (rentTotalSaltPaid h state x) SALT_CAP"

definition rentDeductionToUse :: real where
  "rentDeductionToUse = max FEDERAL_STANDARD_DEDUCTION_MFJ 0"

definition rentFederalTaxableIncome :: "household \<Rightarrow> real" where
  "rentFederalTaxableIncome h = max 0 (agi h - rentDeductionToUse)"

definition rentOrdinaryIncome :: "household \<Rightarrow> real" where
  "rentOrdinaryIncome h = rentFederalTaxableIncome h - longTermGains h"

definition rentOrdinaryTax :: "household \<Rightarrow> real" where
  "rentOrdinaryTax h = calculateTax (rentOrdinaryIncome h) FEDERAL_BRACKETS_MFJ"

definition rentCapitalGainsTax :: "household \<Rightarrow> real" where
  "rentCapitalGainsTax h = stackedCapitalGainsTax (rentOrdinaryIncome h) (longTermGains h)"

definition rentNetInvestmentIncome :: "household \<Rightarrow> real" where
  "rentNetInvestmentIncome h = shortTermGains h + longTermGains h"

definition rentNiitBase :: "household \<Rightarrow> real" where
  "rentNiitBase h = max 0 (min (rentNetInvestmentIncome h) (agi h - NIIT_THRESHOLD_MFJ))"

definition rentNiit :: "household \<Rightarrow> real" where
  "rentNiit h = rentNiitBase h * NIIT_RATE"

definition rentTotalFederalTax :: "household \<Rightarrow> real" where
  "rentTotalFederalTax h = rentOrdinaryTax h + rentCapitalGainsTax h + rentNiit h"

definition rentTotalTaxBurden :: "household \<Rightarrow> string \<Rightarrow> housing \<Rightarrow> real" where
  "rentTotalTaxBurden h state x =
    rentTotalFederalTax h + ficaTax h + rentStateTax h state + rentSdiTax h state + rentLocalTax h x"

definition rentAnnualTakeHome :: "household \<Rightarrow> string \<Rightarrow> housing \<Rightarrow> real" where
  "rentAnnualTakeHome h state x =
    totalIncome h - rentTotalTaxBurden h state x - k401Ded h - hsaDed h - medicalDed h"

definition rentMonthlyTakeHome :: "household \<Rightarrow> string \<Rightarrow> housing \<Rightarrow> real" where
  "rentMonthlyTakeHome h state x = rentAnnualTakeHome h state x / 12"

definition rentMonthlyHousingCost :: "housing \<Rightarrow> real" where
  "rentMonthlyHousingCost x = monthlyRentVal x"

definition rentMonthlyNetCash :: "household \<Rightarrow> string \<Rightarrow> housing \<Rightarrow> real" where
  "rentMonthlyNetCash h state x = rentMonthlyTakeHome h state x - rentMonthlyHousingCost x"

subsection \<open>The result object of one state\<close>

text \<open>
  \<open>newResults[state]\<close>: the keys of the object, with \<open>res_\<close> before a key of the buy
  scenario, \<open>it_\<close> before a key of \<open>itemized\<close> and \<open>rent_\<close> before a key of \<open>rent\<close>.
\<close>

record itemizedBreakdown =
  it_mortgageInterest :: real
  it_salt :: real
  it_other :: real
  it_stateIncomeTax :: real
  it_propertyTax :: real

record rentResult =
  rent_totalTaxBurden :: real
  rent_annualTakeHome :: real
  rent_monthlyTakeHome :: real
  rent_monthlyHousingCost :: real
  rent_monthlyNetCash :: real
  rent_deductionToUse :: real
  rent_federalTaxableIncome :: real
  rent_stateTaxableIncome :: real
  rent_totalSaltPaid :: real
  rent_stateTax :: real
  rent_sdiTax :: real
  rent_localTax :: real
  rent_niit :: real
  rent_stateStandardDed :: real

record stateResult =
  res_totalTaxBurden :: real
  res_effectiveTaxRate :: real
  res_annualTakeHome :: real
  res_monthlyTakeHome :: real
  res_totalFederalTax :: real
  res_ficaTax :: real
  res_stateTax :: real
  res_sdiTax :: real
  res_localTax :: real
  res_niit :: real
  res_agi :: real
  res_deductionToUse :: real
  res_federalTaxableIncome :: real
  res_stateTaxableIncome :: real
  res_totalSaltPaid :: real
  res_monthlyHousingCost :: real
  res_monthlyNetCash :: real
  res_itemized :: itemizedBreakdown
  res_stateStandardDed :: real
  res_rent :: rentResult

definition evalState :: "household \<Rightarrow> string \<Rightarrow> housing \<Rightarrow> stateResult" where
  "evalState h state x =
    \<lparr>res_totalTaxBurden = totalTaxBurden h state x,
     res_effectiveTaxRate = effectiveTaxRate h state x,
     res_annualTakeHome = annualTakeHome h state x,
     res_monthlyTakeHome = monthlyTakeHome h state x,
     res_totalFederalTax = totalFederalTax h state x,
     res_ficaTax = ficaTax h,
     res_stateTax = stateTax h state x,
     res_sdiTax = sdiTax h state,
     res_localTax = localTax h x,
     res_niit = niit h,
     res_agi = agi h,
     res_deductionToUse = deductionToUse h state x,
     res_federalTaxableIncome = federalTaxableIncome h state x,
     res_stateTaxableIncome = stateTaxableIncome h state x,
     res_totalSaltPaid = totalSaltPaid h state x,
     res_monthlyHousingCost = monthlyHousingCost x,
     res_monthlyNetCash = monthlyNetCash h state x,
     res_itemized =
       \<lparr>it_mortgageInterest = federalAnnualMortgageInterest x,
        it_salt = cappedSalt h state x,
        it_other = otherItemizedVal h,
        it_stateIncomeTax = stateTax h state x,
        it_propertyTax = propertyTaxVal x\<rparr>,
     res_stateStandardDed = stateStandardDed state,
     res_rent =
       \<lparr>rent_totalTaxBurden = rentTotalTaxBurden h state x,
        rent_annualTakeHome = rentAnnualTakeHome h state x,
        rent_monthlyTakeHome = rentMonthlyTakeHome h state x,
        rent_monthlyHousingCost = rentMonthlyHousingCost x,
        rent_monthlyNetCash = rentMonthlyNetCash h state x,
        rent_deductionToUse = rentDeductionToUse,
        rent_federalTaxableIncome = rentFederalTaxableIncome h,
        rent_stateTaxableIncome = rentStateTaxableIncome h state,
        rent_totalSaltPaid = rentTotalSaltPaid h state x,
        rent_stateTax = rentStateTax h state,
        rent_sdiTax = rentSdiTax h state,
        rent_localTax = rentLocalTax h x,
        rent_niit = rentNiit h,
        rent_stateStandardDed = rentStateStandardDed state\<rparr>\<rparr>"

subsection \<open>The take-home delta of the phase-out table\<close>

text \<open>
  \<open>calcMonthlyTakeHomeDelta\<close>, with the fields of its argument object that the body
  reads as arguments (\<open>origDeduction\<close>, \<open>federalTaxableIncome\<close>, \<open>niit\<close> and
  \<open>totalFederalTax\<close> are passed and not read).
\<close>

definition calcMonthlyTakeHomeDelta ::
  "real \<Rightarrow> real \<Rightarrow> real \<Rightarrow> real \<Rightarrow> real \<Rightarrow> real \<Rightarrow> real \<Rightarrow> real \<Rightarrow> real \<Rightarrow> real \<Rightarrow> real \<Rightarrow> real \<Rightarrow> real" where
  "calcMonthlyTakeHomeDelta newDeduction agi' totalIncome' shortTermGains' longTermGains'
      k401Ded' hsaDed' medicalDed' ficaTax' stateTax' sdiTax' localTax' =
    (let newFedTaxableIncome = max 0 (agi' - newDeduction);
         ordinaryIncome' = newFedTaxableIncome - longTermGains';
         newOrdinaryTax = calculateTax ordinaryIncome' FEDERAL_BRACKETS_MFJ;
         newCapitalGainsTax = stackedCapitalGainsTax ordinaryIncome' longTermGains';
         netInvestmentIncome' = shortTermGains' + longTermGains';
         niitBase' = max 0 (min netInvestmentIncome' (agi' - NIIT_THRESHOLD_MFJ));
         newNiit = niitBase' * NIIT_RATE;
         newTotalFederalTax = newOrdinaryTax + newCapitalGainsTax + newNiit;
         newTotalTaxBurden = newTotalFederalTax + ficaTax' + stateTax' + sdiTax' + localTax';
         newAnnualTakeHome = totalIncome' - newTotalTaxBurden - k401Ded' - hsaDed' - medicalDed'
     in newAnnualTakeHome / 12)"

section \<open>Form state and coercion\<close>

text \<open>
  A form value is a number (an initial or a loaded value), the text of an input field, or
  \<open>undefined\<close> (a key that is missing). The code reads such a value in two ways only:
  its truthiness (\<open>v || d\<close>) and \<open>Number(v)\<close>. A text is therefore kept as what these two
  see of it: the empty text (falsy, \<open>Number\<close> gives 0), a non-empty text that reads as a
  finite number (truthy, also for \<open>"0"\<close>), and a non-empty text that reads as \<open>NaN\<close>.
\<close>

datatype jsval = Undefined | Num real | EmptyStr | NumStr real | OtherStr

text \<open>\<open>Number(v)\<close>; \<open>None\<close> is \<open>NaN\<close>.\<close>

fun toNumber :: "jsval \<Rightarrow> real option" where
  "toNumber Undefined = None"
| "toNumber (Num r) = Some r"
| "toNumber EmptyStr = Some 0"
| "toNumber (NumStr r) = Some r"
| "toNumber OtherStr = None"

fun truthy :: "jsval \<Rightarrow> bool" where
  "truthy Undefined = False"
| "truthy (Num r) = (r \<noteq> 0)"
| "truthy EmptyStr = False"
| "truthy (NumStr r) = True"
| "truthy OtherStr = True"

text \<open>\<open>Number(v) || 0\<close>: \<open>NaN\<close> and 0 are falsy.\<close>

definition numOrZero :: "jsval \<Rightarrow> real" where
  "numOrZero v = (case toNumber v of None \<Rightarrow> 0 | Some r \<Rightarrow> r)"

text \<open>\<open>v || d\<close>.\<close>

definition orDefault :: "jsval \<Rightarrow> jsval \<Rightarrow> jsval" where
  "orDefault v d = (if truthy v then v else d)"

text \<open>\<open>v ?? d\<close>, as the \<open>handleLoadScenario\<close> of the later variant of the component has it.\<close>

definition nullishDefault :: "jsval \<Rightarrow> jsval \<Rightarrow> jsval" where
  "nullishDefault v d = (if v = Undefined then d else v)"

record stateInput =
  mortgageAmount :: jsval
  mortgageRate :: jsval
  propertyTax :: jsval
  homeInsurance :: jsval
  localTaxRate :: jsval
  monthlyRent :: jsval

text \<open>The object \<open>{}\<close> of \<open>stateInputs[state] || {}\<close>.\<close>

definition emptyStateInput :: stateInput where
  "emptyStateInput =
    \<lparr>mortgageAmount = Undefined, mortgageRate = Undefined, propertyTax = Undefined,
     homeInsurance = Undefined, localTaxRate = Undefined, monthlyRent = Undefined\<rparr>"

text \<open>A saved scenario; a key that the blob lacks is \<open>Undefined\<close>, respectively \<open>None\<close>.\<close>

record scenarioData =
  sc_income :: jsval
  sc_stGains :: jsval
  sc_ltGains :: jsval
  sc_hsa :: jsval
  sc_k401 :: jsval
  sc_medicalPremiums :: jsval
  sc_otherItemized :: jsval
  sc_selectedStates :: "string list option"
  sc_stateInputs :: "(string \<rightharpoonup> stateInput) option"

text \<open>
  The state of the component that the engine and the scenario handlers use; \<open>storage\<close>
  is what \<open>getStoredScenarios\<close> reads under \<open>LOCAL_STORAGE_KEY\<close>.
\<close>

record app =
  income :: jsval
  stGains :: jsval
  ltGains :: jsval
  hsa :: jsval
  k401 :: jsval
  medicalPremiums :: jsval
  otherItemized :: jsval
  selectedStates :: "string list"
  stateInputs :: "string \<rightharpoonup> stateInput"
  scenarioName :: string
  selectedScenario :: string
  savedScenarios :: "string \<rightharpoonup> scenarioData"
  storage :: "string \<rightharpoonup> scenarioData"

text \<open>The first lines of \<open>resultsByState\<close>.\<close>

definition householdOf :: "app \<Rightarrow> household" where
  "householdOf a =
    \<lparr>grossIncome = numOrZero (income a),
     shortTermGains = numOrZero (stGains a),
     longTermGains = numOrZero (ltGains a),
     hsaDed = numOrZero (hsa a),
     k401Ded = numOrZero (k401 a),
     medicalDed = numOrZero (medicalPremiums a),
     otherItemizedVal = numOrZero (otherItemized a)\<rparr>"

text \<open>The first lines of the body of \<open>selectedStates.forEach\<close>.\<close>

definition currentStateInputs :: "app \<Rightarrow> string \<Rightarrow> stateInput" where
  "currentStateInputs a state =
    (case stateInputs a state of None \<Rightarrow> emptyStateInput | Some i \<Rightarrow> i)"

definition housingOf :: "stateInput \<Rightarrow> housing" where
  "housingOf i =
    \<lparr>mortgageAmountVal = numOrZero (mortgageAmount i),
     mortgageRateVal = numOrZero (mortgageRate i),
     propertyTaxVal = numOrZero (propertyTax i),
     homeInsuranceVal = numOrZero (homeInsurance i),
     localTaxRateVal = (case toNumber (localTaxRate i) of None \<Rightarrow> 0 | Some r \<Rightarrow> r / 100),
     monthlyRentVal = numOrZero (monthlyRent i)\<rparr>"

definition resultsByState :: "app \<Rightarrow> (string \<rightharpoonup> stateResult)" where
  "resultsByState a =
    foldl (\<lambda>newResults state.
             newResults(state \<mapsto>
               evalState (householdOf a) state (housingOf (currentStateInputs a state))))
      Map.empty (selectedStates a)"

section \<open>Saving and loading scenarios\<close>

definition scenarioOf :: "app \<Rightarrow> scenarioData" where
  "scenarioOf a =
    \<lparr>sc_income = income a, sc_stGains = stGains a, sc_ltGains = ltGains a, sc_hsa = hsa a,
     sc_k401 = k401 a, sc_medicalPremiums = medicalPremiums a,
     sc_otherItemized = otherItemized a,
     sc_selectedStates = Some (selectedStates a),
     sc_stateInputs = Some (stateInputs a)\<rparr>"

definition handleSaveScenario :: "app \<Rightarrow> app" where
  "handleSaveScenario a =
    (if scenarioName a = [] then a
     else a\<lparr>storage := (storage a)(scenarioName a \<mapsto> scenarioOf a),
            savedScenarios := (storage a)(scenarioName a \<mapsto> scenarioOf a),
            scenarioName := []\<rparr>)"

definition handleLoadScenario :: "string \<Rightarrow> app \<Rightarrow> app" where
  "handleLoadScenario name a =
    (case savedScenarios a name of
       None \<Rightarrow> a
     | Some scenario \<Rightarrow>
         a\<lparr>income := orDefault (sc_income scenario) (Num 250000),
           stGains := orDefault (sc_stGains scenario) (Num 5000),
           ltGains := orDefault (sc_ltGains scenario) (Num 10000),
           hsa := orDefault (sc_hsa scenario) (Num 8300),
           k401 := orDefault (sc_k401 scenario) (Num 46000),
           medicalPremiums := orDefault (sc_medicalPremiums scenario) (Num 6000),
           otherItemized := orDefault (sc_otherItemized scenario) (Num 5000),
           selectedStates :=
             (case sc_selectedStates scenario of
                None \<Rightarrow> [''California'', ''Texas''] | Some l \<Rightarrow> l),
           stateInputs :=
             (case sc_stateInputs scenario of None \<Rightarrow> Map.empty | Some m \<Rightarrow> m),
           selectedScenario := name\<rparr>)"

text \<open>
  The \<open>handleLoadScenario\<close> of the later variant of the component (the one that stores
  under \<open>taxScenariosV2\<close>), on the fields that both variants have: it reads every key with
  \<open>??\<close> where the one above reads it with \<open>||\<close>.
\<close>

definition handleLoadScenarioV2 :: "string \<Rightarrow> app \<Rightarrow> app" where
  "handleLoadScenarioV2 name a =
    (case savedScenarios a name of
       None \<Rightarrow> a
     | Some scenario \<Rightarrow>
         a\<lparr>income := nullishDefault (sc_income scenario) (Num 250000),
           stGains := nullishDefault (sc_stGains scenario) (Num 5000),
           ltGains := nullishDefault (sc_ltGains scenario) (Num 10000),
           hsa := nullishDefault (sc_hsa scenario) (Num 8300),
           k401 := nullishDefault (sc_k401 scenario) (Num 46000),
           medicalPremiums := nullishDefault (sc_medicalPremiums scenario) (Num 6000),
           otherItemized := nullishDefault (sc_otherItemized scenario) (Num 5000),
           selectedStates :=
             (case sc_selectedStates scenario of
                None \<Rightarrow> [''California'', ''Texas''] | Some l \<Rightarrow> l),
           stateInputs :=
             (case sc_stateInputs scenario of None \<Rightarrow> Map.empty | Some m \<Rightarrow> m),
           selectedScenario := name\<rparr>)"

text \<open>A blob with no key at all.\<close>

definition emptyScenario :: scenarioData where
  "emptyScenario =
    \<lparr>sc_income = Undefined, sc_stGains = Undefined, sc_ltGains = Undefined,
     sc_hsa = Undefined, sc_k401 = Undefined, sc_medicalPremiums = Undefined,
     sc_otherItemized = Undefined, sc_selectedStates = None, sc_stateInputs = None\<rparr>"

text \<open>Every household field of the form holds a truthy value.\<close>

definition allTruthy :: "app \<Rightarrow> bool" where
  "allTruthy a = (truthy (income a) \<and> truthy (stGains a) \<and> truthy (ltGains a) \<and> truthy (hsa a)
     \<and> truthy (k401 a) \<and> truthy (medicalPremiums a) \<and> truthy (otherItemized a))"

text \<open>The initial state of the component.\<close>

definition initialApp :: app where
  "initialApp =
    \<lparr>income = Num 250000, stGains = Num 5000, ltGains = Num 10000, hsa = Num 8300,
     k401 = Num 46000, medicalPremiums = Num 6000, otherItemized = Num 5000,
     selectedStates = [''California'', ''Ohio'', ''Texas''],
     stateInputs =
       [''California'' \<mapsto>
          \<lparr>mortgageAmount = Num 1000000, mortgageRate = Num (55/10), propertyTax = Num 12000,
           homeInsurance = Num 1500, localTaxRate = Undefined, monthlyRent = Num 4000\<rparr>,
        ''Texas'' \<mapsto>
          \<lparr>mortgageAmount = Num 450000, mortgageRate = Num (58/10), propertyTax = Num 9500,
           homeInsurance = Num 2000, localTaxRate = Undefined, monthlyRent = Num 2500\<rparr>,
        ''Colorado'' \<mapsto>
          \<lparr>mortgageAmount = Num 600000, mortgageRate = Num (56/10), propertyTax = Num 6000,
           homeInsurance = Num 1200, localTaxRate = Undefined, monthlyRent = Num 2200\<rparr>,
        ''Ohio'' \<mapsto>
          \<lparr>mortgageAmount = Num 300000, mortgageRate = Num (59/10), propertyTax = Num 5500,
           homeInsurance = Num 1000, localTaxRate = Num (25/10), monthlyRent = Num 1800\<rparr>,
        ''North Carolina'' \<mapsto>
          \<lparr>mortgageAmount = Num 400000, mortgageRate = Num (57/10), propertyTax = Num 4000,
           homeInsurance = Num 1100, localTaxRate = Undefined, monthlyRent = Num 2000\<rparr>],
     scenarioName = [], selectedScenario = [],
     savedScenarios = Map.empty, storage = Map.empty\<rparr>"

section \<open>Backsolver\<close>

text \<open>A number that may be \<open>Infinity\<close>: the value of \<open>years\<close>.\<close>

datatype extnum = Infinity | Finite real

text \<open>
  The body of the \<open>for\<close> loop of \<open>backsolverCalculations\<close> from \<open>let years = Infinity\<close>
  up to the value of \<open>years\<close> before the cut-off.
\<close>

definition solveYears :: "real \<Rightarrow> real \<Rightarrow> real \<Rightarrow> real \<Rightarrow> extnum" where
  "solveYears rate' targetAssets currentAssets totalAnnualContribution =
    (if totalAnnualContribution \<le> 0 \<and> currentAssets * rate' \<le> 0 then Infinity
     else if rate' > 0 then
       (if targetAssets * rate' + totalAnnualContribution > 0
           \<and> currentAssets * rate' + totalAnnualContribution > 0
        then Finite (ln ((targetAssets * rate' + totalAnnualContribution)
                          / (currentAssets * rate' + totalAnnualContribution))
                     / ln (1 + rate'))
        else Infinity)
     else if totalAnnualContribution > 0
       then Finite ((targetAssets - currentAssets) / totalAnnualContribution)
       else Infinity)"

text \<open>\<open>years > 100 ? Infinity : years\<close>.\<close>

definition finalYears :: "extnum \<Rightarrow> extnum" where
  "finalYears years =
    (case years of Infinity \<Rightarrow> Infinity | Finite v \<Rightarrow> if v > 100 then Infinity else Finite v)"

text \<open>The \<open>years\<close> that a row of \<open>tableData\<close> reports.\<close>

definition reportedYears :: "real \<Rightarrow> real \<Rightarrow> real \<Rightarrow> real \<Rightarrow> extnum" where
  "reportedYears rate' targetAssets currentAssets totalAnnualContribution =
    finalYears (solveYears rate' targetAssets currentAssets totalAnnualContribution)"

record tableRow =
  row_state :: string
  row_years :: extnum
  row_totalAnnualContribution :: real

text \<open>
  The retirement inputs after \<open>Number\<close>, and \<open>netSavings\<close> for what the loop reads of
  \<open>resultsByState\<close>: the \<open>monthlyNetSavings\<close> of a state that has a result.
\<close>

record retirementInputs =
  portfolioGrowthRate :: real
  currentAssets' :: real
  baseAnnualSavings :: real
  fiNumber :: real

definition totalAnnualContributionOf ::
  "retirementInputs \<Rightarrow> (string \<rightharpoonup> real) \<Rightarrow> string \<Rightarrow> string \<Rightarrow> real" where
  "totalAnnualContributionOf ri netSavings baseState state =
    baseAnnualSavings ri
      + ((case netSavings state of None \<Rightarrow> 0 | Some v \<Rightarrow> v) * 12
         - (case netSavings baseState of None \<Rightarrow> 0 | Some v \<Rightarrow> v) * 12)"

definition backsolverTable ::
  "retirementInputs \<Rightarrow> (string \<rightharpoonup> real) \<Rightarrow> string \<Rightarrow> string list \<Rightarrow> tableRow list" where
  "backsolverTable ri netSavings baseState states =
    (if baseState = [] \<or> netSavings baseState = None then []
     else map (\<lambda>state.
            \<lparr>row_state = state,
             row_years = reportedYears (portfolioGrowthRate ri / 100) (fiNumber ri)
                           (currentAssets' ri)
                           (totalAnnualContributionOf ri netSavings baseState state),
             row_totalAnnualContribution =
               totalAnnualContributionOf ri netSavings baseState state\<rparr>) states)"

text \<open>
  \<open>maxYears\<close>, the horizon of the chart: the largest \<open>Math.ceil\<close> of a finite reported
  value, plus 2, capped at 50.
\<close>

definition maxYears :: "tableRow list \<Rightarrow> int" where
  "maxYears tableData =
    min (foldl (\<lambda>m row. case row_years row of Infinity \<Rightarrow> m | Finite v \<Rightarrow> max m \<lceil>v\<rceil>)
           0 tableData + 2) 50"

section \<open>Progressive tax: results\<close>

lemma calculateTax_loop_acc:
  "calculateTax_loop tax remainingIncome bs = tax + calculateTax_loop 0 remainingIncome bs"
proof (induction bs arbitrary: tax remainingIncome)
  case Nil
  show ?case by simp
next
  case (Cons b bs)
  show ?case
    using Cons.IH [of "tax + taxableInBracket remainingIncome b * rate b"]
          Cons.IH [of "taxableInBracket remainingIncome b * rate b"]
          Cons.IH [of tax]
    by simp
qed

lemma calculateTax_loop_nonpos:
  "remainingIncome \<le> 0 \<Longrightarrow> calculateTax_loop tax remainingIncome bs = tax"
  by (cases bs) simp_all

lemma calculateTax_step:
  "calculateTax x (b # bs) = rate b * alloc b x + calculateTax (x - alloc b x) bs"
proof (cases "x \<le> 0")
  case True
  then have "taxableInBracket x b \<le> 0"
    by (auto simp: taxableInBracket_def split: option.splits)
  then have "alloc b x = 0" by (simp add: alloc_def)
  with True show ?thesis
    by (simp add: calculateTax_def calculateTax_loop_nonpos)
next
  case False
  show ?thesis
  proof (cases "taxableInBracket x b > 0")
    case True
    then have "alloc b x = taxableInBracket x b" by (simp add: alloc_def)
    with True False show ?thesis
      using calculateTax_loop_acc [of "taxableInBracket x b * rate b" "x - taxableInBracket x b" bs]
      by (simp add: calculateTax_def)
  next
    case nonpos: False
    then have "alloc b x = 0" by (simp add: alloc_def)
    with nonpos False show ?thesis by (simp add: calculateTax_def)
  qed
qed

lemma alloc_mono:
  assumes "x \<le> y"
  shows "alloc b x \<le> alloc b y" and "x - alloc b x \<le> y - alloc b y"
  using assms by (auto simp: alloc_def taxableInBracket_def split: option.splits)

lemma maxRate_nonneg: "0 \<le> maxRate bs"
  by (induction bs) auto

lemma calculateTax_slope:
  assumes "\<forall>b \<in> set bs. 0 \<le> rate b" and "x \<le> y"
  shows "0 \<le> calculateTax y bs - calculateTax x bs \<and>
         calculateTax y bs - calculateTax x bs \<le> maxRate bs * (y - x)"
  using assms
proof (induction bs arbitrary: x y)
  case Nil
  then show ?case by (simp add: calculateTax_def)
next
  case (Cons b bs)
  define a where "a = alloc b x"
  define a' where "a' = alloc b y"
  define d where "d = (y - a') - (x - a)"
  define g where "g = calculateTax (y - a') bs - calculateTax (x - a) bs"
  have r: "0 \<le> rate b" and rs: "\<forall>c \<in> set bs. 0 \<le> rate c"
    using Cons.prems(1) by simp_all
  have aa: "a \<le> a'" and xa: "x - a \<le> y - a'"
    using alloc_mono [OF Cons.prems(2), of b] by (simp_all add: a_def a'_def)
  have d0: "0 \<le> d" using xa by (simp add: d_def)
  have ih: "0 \<le> g \<and> g \<le> maxRate bs * d"
    using Cons.IH [OF rs xa] by (simp add: g_def d_def)
  have diff: "calculateTax y (b # bs) - calculateTax x (b # bs) = rate b * (a' - a) + g"
    by (simp add: calculateTax_step a_def a'_def g_def algebra_simps)
  have lo: "0 \<le> rate b * (a' - a) + g"
    using r aa ih by simp
  have m1: "rate b * (a' - a) \<le> maxRate (b # bs) * (a' - a)"
    using aa by (intro mult_right_mono) simp_all
  have m2: "maxRate bs * d \<le> maxRate (b # bs) * d"
    using d0 by (intro mult_right_mono) simp_all
  have "rate b * (a' - a) + g \<le> maxRate (b # bs) * (a' - a) + maxRate (b # bs) * d"
    using m1 m2 ih by linarith
  also have "\<dots> = maxRate (b # bs) * (y - x)"
    by (simp add: d_def algebra_simps)
  finally show ?case using lo diff by simp
qed

lemma calculateTax_cont:
  assumes "\<forall>b \<in> set bs. 0 \<le> rate b"
  shows "isCont (\<lambda>x. calculateTax x bs) x"
proof -
  define M where "M = maxRate bs + 1"
  have M: "0 < M" using maxRate_nonneg [of bs] by (simp add: M_def)
  have lip: "\<bar>calculateTax y bs - calculateTax x bs\<bar> \<le> M * \<bar>y - x\<bar>" for y
  proof (cases "x \<le> y")
    case True
    have "maxRate bs * (y - x) \<le> M * (y - x)"
      using True by (intro mult_right_mono) (simp_all add: M_def)
    with calculateTax_slope [OF assms True] True show ?thesis by simp
  next
    case False
    then have le: "y \<le> x" by simp
    have "maxRate bs * (x - y) \<le> M * (x - y)"
      using le by (intro mult_right_mono) (simp_all add: M_def)
    with calculateTax_slope [OF assms le] le show ?thesis by simp
  qed
  show ?thesis
    unfolding isCont_def
  proof (rule LIM_I)
    fix e :: real
    assume e: "0 < e"
    show "\<exists>s>0. \<forall>y. y \<noteq> x \<and> norm (y - x) < s \<longrightarrow> norm (calculateTax y bs - calculateTax x bs) < e"
    proof (intro exI conjI allI impI)
      show "0 < e / M" using e M by simp
    next
      fix y
      assume "y \<noteq> x \<and> norm (y - x) < e / M"
      then have "M * \<bar>y - x\<bar> < e" using M by (simp add: field_simps)
      with lip [of y] show "norm (calculateTax y bs - calculateTax x bs) < e" by simp
    qed
  qed
qed


text \<open>
  Claim C3. For a bracket table whose rates are non-negative, \<open>calculateTax\<close> is
  non-decreasing in the income, and it has no jump: between two incomes the tax grows by at
  most the largest rate of the table times the difference of the incomes, so at a bracket
  boundary one more unit of income costs at most one unit at a marginal rate, and the tax
  is a continuous function of the income. That the brackets are ascending and contiguous
  is not needed for this.
\<close>

theorem C3_calculateTax_monotone_continuous:
  assumes "\<forall>b \<in> set brackets. 0 \<le> rate b"
  shows "(\<forall>x y. x \<le> y \<longrightarrow>
            calculateTax x brackets \<le> calculateTax y brackets
            \<and> calculateTax y brackets - calculateTax x brackets \<le> maxRate brackets * (y - x))
         \<and> (\<forall>x. isCont (\<lambda>i. calculateTax i brackets) x)"
  using calculateTax_slope [OF assms] calculateTax_cont [OF assms] by auto

theorem C3_witness:
  "calculateTax 23850 FEDERAL_BRACKETS_MFJ \<le> calculateTax 23851 FEDERAL_BRACKETS_MFJ
   \<and> calculateTax 23851 FEDERAL_BRACKETS_MFJ - calculateTax 23850 FEDERAL_BRACKETS_MFJ
       \<le> maxRate FEDERAL_BRACKETS_MFJ * (23851 - 23850)
   \<and> isCont (\<lambda>i. calculateTax i FEDERAL_BRACKETS_MFJ) 23850"
proof -
  have r: "\<forall>b \<in> set FEDERAL_BRACKETS_MFJ. 0 \<le> rate b"
    by (simp add: FEDERAL_BRACKETS_MFJ_def mk_bracket_def)
  have le: "(23850::real) \<le> 23851" by simp
  from C3_calculateTax_monotone_continuous [OF r] le show ?thesis by blast
qed

section \<open>Capital-gains stacking: results\<close>

text \<open>
  Claim C4. With long-term gains \<open>g \<ge> 0\<close> and an ordinary income at or above the ceiling
  of the 15% tier, the stacking allocates nothing to the 0% tier and nothing to the 15%
  tier, and the capital-gains tax is 0.20 times the gains.
\<close>

theorem C4_gains_above_top_ceiling:
  assumes "0 \<le> g" and "fifteenRateMax \<le> oi"
  shows "taxableAtZero oi g = 0 \<and> taxableAtFifteen oi g = 0 \<and> stackedCapitalGainsTax oi g = (20/100) * g"
  using assms
  by (auto simp: taxableAtZero_def taxableAtFifteen_def stackedCapitalGainsTax_def remainingLTCG_def zeroRateMax_def fifteenRateMax_def)

theorem C4_witness:
  "taxableAtZero 600000 10000 = 0 \<and> taxableAtFifteen 600000 10000 = 0
   \<and> stackedCapitalGainsTax 600000 10000 = 2000"
proof -
  have g: "(0::real) \<le> 10000" by simp
  have o: "fifteenRateMax \<le> 600000" by (simp add: fifteenRateMax_def)
  from C4_gains_above_top_ceiling [OF g o] show ?thesis by simp
qed

text \<open>
  Claim C9. With long-term gains \<open>g \<ge> 0\<close> and any ordinary income, negative ones
  included, the amounts of the 0% tier, of the 15% tier and of the 20% rest are each
  non-negative and add up to \<open>g\<close>, and the capital-gains tax is the sum of the three
  amounts at their rates.
\<close>

theorem C9_gains_partition:
  assumes "0 \<le> g"
  shows "0 \<le> taxableAtZero oi g \<and> 0 \<le> taxableAtFifteen oi g \<and> 0 \<le> taxableAtTwenty oi g \<and>
    taxableAtZero oi g + taxableAtFifteen oi g + taxableAtTwenty oi g = g \<and>
    stackedCapitalGainsTax oi g = 0 * taxableAtZero oi g + (15/100) * taxableAtFifteen oi g + (20/100) * taxableAtTwenty oi g"
  using assms
  by (auto simp: taxableAtZero_def taxableAtFifteen_def taxableAtTwenty_def stackedCapitalGainsTax_def remainingLTCG_def zeroRateMax_def fifteenRateMax_def min_def max_def)

theorem C9_witness:
  "0 \<le> taxableAtZero (-5000) 600000 \<and> 0 \<le> taxableAtFifteen (-5000) 600000
   \<and> 0 \<le> taxableAtTwenty (-5000) 600000
   \<and> taxableAtZero (-5000) 600000 + taxableAtFifteen (-5000) 600000
       + taxableAtTwenty (-5000) 600000 = 600000"
proof -
  have g: "(0::real) \<le> 600000" by simp
  from C9_gains_partition [OF g, of "-5000"] show ?thesis by blast
qed


section \<open>Amortization: results\<close>

lemma amort_loop_stop:
  "\<not> (i < years * 12 \<and> bal > 0) \<Longrightarrow> amort_loop r p years i bal yi = yi"
  by (subst amort_loop.simps) (simp only: if_False)

lemma amort_loop_step:
  assumes "i < years * 12" and "bal > 0"
  shows "amort_loop r p years i bal yi =
         amort_loop r p years (i + 1) (bal - (p - bal * r))
           (yi[i div 12 := yi ! (i div 12) + bal * r])"
proof -
  have "i div 12 < years" using assms(1) by (simp add: div_less_iff_less_mult)
  with assms show ?thesis by (subst amort_loop.simps) (simp only: simp_thms if_True)
qed

lemma amort_loop_length:
  "length (amort_loop r p years i bal yi) = length yi"
proof (induction r p years i bal yi rule: amort_loop.induct)
  case (1 r p years i bal yi)
  show ?case
  proof (cases "i < years * 12 \<and> bal > 0")
    case True
    then have d: "i div 12 < years" by (simp add: div_less_iff_less_mult)
    have "length (amort_loop r p years (i + 1) (bal - (p - bal * r))
            (yi[i div 12 := yi ! (i div 12) + bal * r])) = length yi"
      using "1.IH" [OF True] d by simp
    with True show ?thesis by (simp add: amort_loop_step)
  next
    case False
    then show ?thesis using amort_loop_stop [OF False] by simp
  qed
qed

lemma amort_loop_later_months:
  "12 \<le> i \<Longrightarrow> amort_loop r p years i bal yi ! 0 = yi ! 0"
proof (induction r p years i bal yi rule: amort_loop.induct)
  case (1 r p years i bal yi)
  have pos: "0 < i div 12" using "1.prems" by (simp add: div_greater_zero_iff)
  show ?case
  proof (cases "i < years * 12 \<and> bal > 0")
    case True
    then have d: "i div 12 < years" by (simp add: div_less_iff_less_mult)
    have "amort_loop r p years (i + 1) (bal - (p - bal * r))
            (yi[i div 12 := yi ! (i div 12) + bal * r]) ! 0
          = (yi[i div 12 := yi ! (i div 12) + bal * r]) ! 0"
      using "1.IH" [OF True] d "1.prems" by simp
    also have "\<dots> = yi ! 0" using pos by simp
    finally show ?thesis using True by (simp add: amort_loop_step)
  next
    case False
    then show ?thesis using amort_loop_stop [OF False] by simp
  qed
qed

lemma amort_loop_first_year:
  assumes "i \<le> 12" and "1 \<le> years" and "yi \<noteq> []" and "yj \<noteq> []" and "yi ! 0 = yj ! 0"
  shows "amort_loop r p years i bal yi ! 0 = amort_loop r p 1 i bal yj ! 0"
  using assms
proof (induction "12 - i" arbitrary: i bal yi yj)
  case 0
  then have i: "i = 12" by simp
  have "amort_loop r p 1 i bal yj = yj"
    using i by (intro amort_loop_stop) simp
  then show ?case
    using amort_loop_later_months [of i r p years bal yi] i "0.prems" by simp
next
  case (Suc n)
  then have i: "i < 12" by simp
  then have d: "i div 12 = 0" by simp
  show ?case
  proof (cases "bal > 0")
    case True
    have cont: "i < years * 12" using i Suc.prems(2) by simp
    have l: "amort_loop r p years i bal yi =
             amort_loop r p years (i + 1) (bal - (p - bal * r)) (yi[0 := yi ! 0 + bal * r])"
      using amort_loop_step [OF cont True, of r p yi] d by simp
    have c1: "i < 1 * 12" using i by simp
    have r: "amort_loop r p 1 i bal yj =
             amort_loop r p 1 (i + 1) (bal - (p - bal * r)) (yj[0 := yj ! 0 + bal * r])"
      using amort_loop_step [OF c1 True, of r p yj] d by simp
    have "amort_loop r p years (i + 1) (bal - (p - bal * r)) (yi[0 := yi ! 0 + bal * r]) ! 0 =
          amort_loop r p 1 (i + 1) (bal - (p - bal * r)) (yj[0 := yj ! 0 + bal * r]) ! 0"
    proof (rule Suc.hyps(1))
      show "n = 12 - (i + 1)" using Suc.hyps(2) by simp
      show "i + 1 \<le> 12" using i by simp
      show "1 \<le> years" by (rule Suc.prems(2))
      show "yi[0 := yi ! 0 + bal * r] \<noteq> []" using Suc.prems(3) by simp
      show "yj[0 := yj ! 0 + bal * r] \<noteq> []" using Suc.prems(4) by simp
      show "yi[0 := yi ! 0 + bal * r] ! 0 = yj[0 := yj ! 0 + bal * r] ! 0"
        using Suc.prems(3,4,5) by simp
    qed
    with l r show ?thesis by simp
  next
    case False
    have "amort_loop r p years i bal yi = yi"
      using False by (intro amort_loop_stop) simp
    moreover have "amort_loop r p 1 i bal yj = yj"
      using False by (intro amort_loop_stop) simp
    ultimately show ?thesis using Suc.prems(5) by simp
  qed
qed

lemma take1_entries:
  assumes "ys \<noteq> []"
  shows "take 1 (map (\<lambda>(idx, v). \<lparr>year = idx + 1, interest = v\<rparr>) (enumerate 0 ys))
         = [\<lparr>year = 1, interest = ys ! 0\<rparr>]"
  using assms by (cases ys) simp_all

lemma single_entries:
  assumes "length ys = 1"
  shows "map (\<lambda>(idx, v). \<lparr>year = idx + 1, interest = v\<rparr>) (enumerate 0 ys)
         = [\<lparr>year = 1, interest = ys ! 0\<rparr>]"
  using assms by (cases ys) simp_all

lemma yearInterestOf_length: "length (yearInterestOf amount annualRate years) = years"
  by (simp add: yearInterestOf_def amort_loop_length)

lemma yearInterestOf_first:
  assumes "1 \<le> years"
  shows "yearInterestOf amount annualRate years ! 0 = yearInterestOf amount annualRate 1 ! 0"
proof -
  have rep: "replicate years (0::real) \<noteq> []" using assms by auto
  show ?thesis
    unfolding yearInterestOf_def
    by (rule amort_loop_first_year) (use assms rep in \<open>simp_all add: nth_replicate\<close>)
qed

lemma schedule_one:
  assumes "amount \<noteq> 0" and "annualRate \<noteq> 0"
  shows "getInterestSchedule amount annualRate 1
         = [\<lparr>year = 1, interest = yearInterestOf amount annualRate 1 ! 0\<rparr>]"
  using assms single_entries [OF yearInterestOf_length [of amount annualRate 1]]
  by (simp add: getInterestSchedule_def)

lemma schedule_first_year:
  assumes "1 \<le> years"
  shows "take 1 (getInterestSchedule amount annualRate years) = getInterestSchedule amount annualRate 1"
proof (cases "amount = 0 \<or> annualRate = 0")
  case True
  then show ?thesis by (auto simp: getInterestSchedule_def)
next
  case False
  have ne: "yearInterestOf amount annualRate years \<noteq> []"
    using yearInterestOf_length [of amount annualRate years] assms by auto
  show ?thesis
    using False take1_entries [OF ne] schedule_one [of amount annualRate]
      yearInterestOf_first [OF assms, of amount annualRate]
    by (simp add: getInterestSchedule_def)
qed

lemma firstInterest_schedule:
  assumes "amount \<noteq> 0" and "annualRate \<noteq> 0" and "1 \<le> years"
  shows "firstInterest (getInterestSchedule amount annualRate years)
         = yearInterestOf amount annualRate 1 ! 0"
proof -
  have "take 1 (getInterestSchedule amount annualRate years)
        = [\<lparr>year = 1, interest = yearInterestOf amount annualRate 1 ! 0\<rparr>]"
    using schedule_first_year [OF assms(3)] schedule_one [OF assms(1,2)] by simp
  then show ?thesis
    by (cases "getInterestSchedule amount annualRate years") (simp_all add: firstInterest_def)
qed

text \<open>
  Claim C8. For a principal and an annual rate that are not zero, and every schedule
  length of at least one year, the first entry of the schedule is the entry of the
  one-year schedule: the one-year call returns exactly the first entry of the longer
  schedule, and so of the 10-year one.
\<close>

theorem C8_first_year_interest_independent_of_length:
  assumes "amount \<noteq> 0" and "annualRate \<noteq> 0" and "1 \<le> years"
  shows "take 1 (getInterestSchedule amount annualRate years) = getInterestSchedule amount annualRate 1
       \<and> getInterestSchedule amount annualRate 1
           = [\<lparr>year = 1, interest = firstInterest (getInterestSchedule amount annualRate years)\<rparr>]
       \<and> firstInterest (getInterestSchedule amount annualRate 1)
           = firstInterest (getInterestSchedule amount annualRate 10)"
  using schedule_first_year [OF assms(3), of amount annualRate]
    schedule_one [OF assms(1,2)]
    firstInterest_schedule [OF assms]
    firstInterest_schedule [OF assms(1,2), of 1]
    firstInterest_schedule [OF assms(1,2), of 10]
  by simp

theorem C8_witness:
  "take 1 (getInterestSchedule 450000 (58/10) 10) = getInterestSchedule 450000 (58/10) 1
   \<and> firstInterest (getInterestSchedule 450000 (58/10) 1)
       = firstInterest (getInterestSchedule 450000 (58/10) 10)"
proof -
  have a: "(450000::real) \<noteq> 0" and b: "(58/10::real) \<noteq> 0" and c: "(1::nat) \<le> 10"
    by simp_all
  from C8_first_year_interest_independent_of_length [OF a b c] show ?thesis by blast
qed

section \<open>Deductions: results\<close>

text \<open>
  Claim C5. In the buy scenario the federal deduction is the larger of the federal itemized
  total and the federal standard deduction, and the state deduction is the larger of the
  state itemized total and the state standard deduction: each is at least both of its two
  candidates and equal to one of them. The result object carries the federal one, and
  the state taxable income is computed from the state one.
\<close>

theorem C5_deduction_is_max:
  "deductionToUse h state x
     = max (totalFederalItemizedDeductions h state x) FEDERAL_STANDARD_DEDUCTION_MFJ
   \<and> totalFederalItemizedDeductions h state x \<le> deductionToUse h state x
   \<and> FEDERAL_STANDARD_DEDUCTION_MFJ \<le> deductionToUse h state x
   \<and> (deductionToUse h state x = totalFederalItemizedDeductions h state x
        \<or> deductionToUse h state x = FEDERAL_STANDARD_DEDUCTION_MFJ)
   \<and> stateDeductionToUse h state x = max (stateItemizedDed h state x) (stateStandardDed state)
   \<and> stateItemizedDed h state x \<le> stateDeductionToUse h state x
   \<and> stateStandardDed state \<le> stateDeductionToUse h state x
   \<and> (stateDeductionToUse h state x = stateItemizedDed h state x
        \<or> stateDeductionToUse h state x = stateStandardDed state)
   \<and> res_deductionToUse (evalState h state x) = deductionToUse h state x
   \<and> res_stateTaxableIncome (evalState h state x)
        = max 0 (stateAgi h state - stateDeductionToUse h state x)"
  by (auto simp: deductionToUse_def stateDeductionToUse_def evalState_def stateTaxableIncome_def max_def)

text \<open>
  Claim C6. The SALT part of the federal itemized total is the minimum of the SALT paid
  (state tax, property tax, SDI, local tax) and the cap, so it never exceeds 40000; the
  mortgage interest and the other itemized amount are added to the capped SALT as they
  are.
\<close>

theorem C6_salt_capped_before_adding:
  "cappedSalt h state x \<le> SALT_CAP
   \<and> cappedSalt h state x
        = min (stateTax h state x + propertyTaxVal x + sdiTax h state + localTax h x) SALT_CAP
   \<and> totalFederalItemizedDeductions h state x
        = federalAnnualMortgageInterest x + cappedSalt h state x + otherItemizedVal h
   \<and> it_salt (res_itemized (evalState h state x)) \<le> 40000
   \<and> it_salt (res_itemized (evalState h state x)) = cappedSalt h state x
   \<and> it_mortgageInterest (res_itemized (evalState h state x)) = federalAnnualMortgageInterest x
   \<and> it_other (res_itemized (evalState h state x)) = otherItemizedVal h"
  by (simp add: cappedSalt_def totalSaltPaid_def totalFederalItemizedDeductions_def evalState_def SALT_CAP_def)

section \<open>Results per state\<close>

lemma resultsByState_foldl:
  "foldl (\<lambda>newResults state. newResults(state \<mapsto> f state)) m xs s
   = (if s \<in> set xs then Some (f s) else m s)"
  by (induction xs arbitrary: m) auto

lemma resultsByState_lookup:
  "resultsByState a s =
    (if s \<in> set (selectedStates a)
     then Some (evalState (householdOf a) s (housingOf (currentStateInputs a s)))
     else None)"
  by (simp add: resultsByState_def resultsByState_foldl)

lemma res_agi_evalState: "res_agi (evalState h state x) = agi h"
  by (simp add: evalState_def)

lemma resultsByState_cong:
  assumes "householdOf a = householdOf b" and "selectedStates a = selectedStates b"
    and "stateInputs a = stateInputs b"
  shows "resultsByState a = resultsByState b"
  using assms by (auto simp: resultsByState_lookup currentStateInputs_def fun_eq_iff)

text \<open>
  Claim C10. For two states of the form with the same household values, whatever their
  selected states and housing inputs, every result of the one and every result of the
  other carry the same AGI, the same payroll tax and the same NIIT, and the rent part of a
  result carries the NIIT of its buy part.
\<close>

theorem C10_agi_fica_niit_independent:
  assumes "householdOf a1 = householdOf a2"
    and "resultsByState a1 s1 = Some o1"
    and "resultsByState a2 s2 = Some o2"
  shows "res_agi o1 = res_agi o2 \<and> res_ficaTax o1 = res_ficaTax o2 \<and> res_niit o1 = res_niit o2
    \<and> rent_niit (res_rent o1) = res_niit o1"
  using assms
  by (auto simp: resultsByState_lookup evalState_def rentNiit_def niit_def rentNiitBase_def
      niitBase_def rentNetInvestmentIncome_def netInvestmentIncome_def split: if_splits)

theorem C10_witness:
  "res_agi (evalState (householdOf initialApp) ''California''
              (housingOf (currentStateInputs initialApp ''California'')))
     = res_agi (evalState (householdOf initialApp) ''Texas'' (housingOf emptyStateInput))
   \<and> res_niit (evalState (householdOf initialApp) ''California''
              (housingOf (currentStateInputs initialApp ''California'')))
     = res_niit (evalState (householdOf initialApp) ''Texas'' (housingOf emptyStateInput))
   \<and> res_ficaTax (evalState (householdOf initialApp) ''California''
              (housingOf (currentStateInputs initialApp ''California'')))
     = res_ficaTax (evalState (householdOf initialApp) ''Texas'' (housingOf emptyStateInput))"
proof -
  define a2 where "a2 = initialApp\<lparr>selectedStates := [''Texas''], stateInputs := Map.empty\<rparr>"
  have h: "householdOf initialApp = householdOf a2"
    by (simp add: a2_def householdOf_def)
  have r1: "resultsByState initialApp ''California''
            = Some (evalState (householdOf initialApp) ''California''
                      (housingOf (currentStateInputs initialApp ''California'')))"
    by (simp add: resultsByState_lookup initialApp_def)
  have r2: "resultsByState a2 ''Texas''
            = Some (evalState (householdOf initialApp) ''Texas'' (housingOf emptyStateInput))"
    by (simp add: resultsByState_lookup a2_def currentStateInputs_def householdOf_def)
  from C10_agi_fica_niit_independent [OF h r1 r2] show ?thesis by blast
qed

section \<open>Saving and loading: results\<close>

text \<open>
  Saving and loading restores the results when every household field is truthy; with the
  \<open>??\<close> of the later variant it does so already when every household field is defined.
  A blob without keys loads the defaults.
\<close>

lemma roundtrip_truthy:
  assumes "scenarioName a = name" and "name \<noteq> []" and "allTruthy a"
  shows "resultsByState (handleLoadScenario name (handleSaveScenario a)) = resultsByState a"
proof (rule resultsByState_cong)
  show "householdOf (handleLoadScenario name (handleSaveScenario a)) = householdOf a"
    using assms
    by (simp add: handleLoadScenario_def handleSaveScenario_def scenarioOf_def householdOf_def
        orDefault_def allTruthy_def)
  show "selectedStates (handleLoadScenario name (handleSaveScenario a)) = selectedStates a"
    using assms by (simp add: handleLoadScenario_def handleSaveScenario_def scenarioOf_def)
  show "stateInputs (handleLoadScenario name (handleSaveScenario a)) = stateInputs a"
    using assms by (simp add: handleLoadScenario_def handleSaveScenario_def scenarioOf_def)
qed

lemma nullishDefault_defined: "v \<noteq> Undefined \<Longrightarrow> nullishDefault v d = v"
  by (simp add: nullishDefault_def)

lemma roundtrip_V2_fields:
  assumes "scenarioName a = name" and "name \<noteq> []"
    and "income a \<noteq> Undefined" and "stGains a \<noteq> Undefined" and "ltGains a \<noteq> Undefined"
    and "hsa a \<noteq> Undefined" and "k401 a \<noteq> Undefined" and "medicalPremiums a \<noteq> Undefined"
    and "otherItemized a \<noteq> Undefined"
  shows "resultsByState (handleLoadScenarioV2 name (handleSaveScenario a)) = resultsByState a"
proof (rule resultsByState_cong)
  show "householdOf (handleLoadScenarioV2 name (handleSaveScenario a)) = householdOf a"
    using assms
    by (simp add: handleLoadScenarioV2_def handleSaveScenario_def scenarioOf_def householdOf_def
        nullishDefault_def)
  show "selectedStates (handleLoadScenarioV2 name (handleSaveScenario a)) = selectedStates a"
    using assms by (simp add: handleLoadScenarioV2_def handleSaveScenario_def scenarioOf_def)
  show "stateInputs (handleLoadScenarioV2 name (handleSaveScenario a)) = stateInputs a"
    using assms by (simp add: handleLoadScenarioV2_def handleSaveScenario_def scenarioOf_def)
qed

lemma load_missing_keys:
  assumes "savedScenarios a name = Some emptyScenario"
  shows "income (handleLoadScenario name a) = Num 250000
    \<and> stGains (handleLoadScenario name a) = Num 5000
    \<and> ltGains (handleLoadScenario name a) = Num 10000
    \<and> hsa (handleLoadScenario name a) = Num 8300
    \<and> k401 (handleLoadScenario name a) = Num 46000
    \<and> medicalPremiums (handleLoadScenario name a) = Num 6000
    \<and> otherItemized (handleLoadScenario name a) = Num 5000
    \<and> selectedStates (handleLoadScenario name a) = [''California'', ''Texas'']
    \<and> stateInputs (handleLoadScenario name a) = Map.empty"
  using assms by (simp add: handleLoadScenario_def emptyScenario_def orDefault_def)

text \<open>
  Claim C2, at the input where the code departs from it. The income field is blanked (the
  engine reads it as 0), the scenario is saved as \<open>s\<close> and loaded: the income comes back as
  250000, and the AGI of the Texas result changes from -45300 to 204700.
\<close>

theorem C2_blank_income_not_restored:
  "income (handleLoadScenario ''s'' (handleSaveScenario (initialApp\<lparr>income := EmptyStr, scenarioName := ''s''\<rparr>)))
     = Num 250000
   \<and> grossIncome (householdOf (initialApp\<lparr>income := EmptyStr, scenarioName := ''s''\<rparr>)) = 0
   \<and> grossIncome (householdOf (handleLoadScenario ''s''
        (handleSaveScenario (initialApp\<lparr>income := EmptyStr, scenarioName := ''s''\<rparr>)))) = 250000
   \<and> map_option res_agi (resultsByState (initialApp\<lparr>income := EmptyStr, scenarioName := ''s''\<rparr>) ''Texas'')
        = Some (- 45300)
   \<and> map_option res_agi (resultsByState (handleLoadScenario ''s''
        (handleSaveScenario (initialApp\<lparr>income := EmptyStr, scenarioName := ''s''\<rparr>))) ''Texas'')
        = Some 204700"
  by (simp add: handleLoadScenario_def handleSaveScenario_def scenarioOf_def householdOf_def
      orDefault_def initialApp_def numOrZero_def resultsByState_lookup res_agi_evalState
      agi_def totalIncome_def aboveTheLineDeductions_def)

section \<open>Backsolver: results\<close>

lemma backsolverTable_years:
  assumes "baseState \<noteq> []" and "netSavings baseState \<noteq> None"
  shows "map row_years (backsolverTable ri netSavings baseState states)
    = map (\<lambda>state. reportedYears (portfolioGrowthRate ri / 100) (fiNumber ri) (currentAssets' ri)
             (totalAnnualContributionOf ri netSavings baseState state)) states"
  using assms by (auto simp: backsolverTable_def)

lemma ln_11_over_ln_101: "100 < ln (11::real) / ln (101/100)"
proof -
  have e3: "exp (1::real) \<le> 3" by (rule exp_le)
  have "(1::real) = ln (exp 1)" by simp
  also have "\<dots> \<le> ln 3" using e3 by (subst ln_le_cancel_iff) simp_all
  also have "\<dots> < ln (11::real)" by (subst ln_less_cancel_iff) simp_all
  finally have l11: "1 < ln (11::real)" .
  have "ln (1 + 1/100) \<le> (1/100::real)" by (rule ln_add_one_self_le_self) simp
  then have up: "ln (101/100) \<le> (1/100::real)" by simp
  have pos: "0 < ln (101/100::real)" by (subst ln_gt_zero_iff) simp_all
  have "100 * ln (101/100::real) \<le> 1" using up by simp
  also have "\<dots> < ln (11::real)" by (rule l11)
  finally show ?thesis using pos by (simp add: field_simps)
qed

text \<open>
  Claim C1, amended. For a growth rate \<open>r > 0\<close> and both logarithm arguments positive, the
  solved value is \<open>ln ((T r + c) / (A r + c)) / ln (1 + r)\<close>, and the row reports it when it
  is at most 100; when it exceeds 100 the row reports \<open>Infinity\<close>.
\<close>

theorem C1_reported_years_with_cutoff:
  assumes "0 < r" and "0 < T * r + c" and "0 < A * r + c"
  shows "solveYears r T A c = Finite (ln ((T * r + c) / (A * r + c)) / ln (1 + r))
    \<and> reportedYears r T A c =
        (if ln ((T * r + c) / (A * r + c)) / ln (1 + r) > 100 then Infinity
         else Finite (ln ((T * r + c) / (A * r + c)) / ln (1 + r)))"
proof -
  have "\<not> (c \<le> 0 \<and> A * r \<le> 0)" using assms(3) by auto
  with assms show ?thesis
    by (simp add: reportedYears_def solveYears_def finalYears_def)
qed

theorem C1_witness:
  "reportedYears 1 3 0 1 = Finite 2"
proof -
  have a: "(0::real) < 1" and b: "(0::real) < 3 * 1 + 1" and c: "(0::real) < 0 * 1 + 1"
    by simp_all
  have "ln (4::real) = ln (2 ^ 2)" by simp
  also have "\<dots> = 2 * ln 2" by (subst ln_realpow) simp_all
  finally have l4: "ln (4::real) = 2 * ln 2" .
  have l2: "0 < ln (2::real)" by simp
  have q: "ln (4::real) / ln 2 = 2" using l4 l2 by simp
  from C1_reported_years_with_cutoff [OF a b c] q show ?thesis by simp
qed

text \<open>
  The claim as stated fails: at 1% growth, no assets, 1000 a year and a target of 1000000
  both logarithm arguments are positive and the solved value is above 100, so the row
  reports \<open>Infinity\<close>.
\<close>

theorem C1_counterexample:
  "(0::real) < 1/100
   \<and> (0::real) < 1000000 * (1/100) + 1000
   \<and> (0::real) < 0 * (1/100) + 1000
   \<and> reportedYears (1/100) 1000000 0 1000 = Infinity
   \<and> reportedYears (1/100) 1000000 0 1000
       \<noteq> Finite (ln ((1000000 * (1/100) + 1000) / (0 * (1/100) + 1000)) / ln (1 + 1/100))"
  using ln_11_over_ln_101
  by (simp add: reportedYears_def solveYears_def finalYears_def)

text \<open>
  Claim C7, amended. At a growth rate of exactly 0 the solved value is \<open>(T - A) / c\<close> for a
  contribution \<open>c > 0\<close>, and the row reports it when it is at most 100 and \<open>Infinity\<close> when
  it exceeds 100; for \<open>c \<le> 0\<close> the row reports \<open>Infinity\<close>. No branch divides by the rate.
\<close>

theorem C7_zero_rate_with_cutoff:
  "solveYears 0 T A c = (if c > 0 then Finite ((T - A) / c) else Infinity)
   \<and> reportedYears 0 T A c =
       (if c > 0 then (if (T - A) / c > 100 then Infinity else Finite ((T - A) / c))
        else Infinity)"
  by (simp add: reportedYears_def solveYears_def finalYears_def)

text \<open>
  The claim as stated fails: with a target of 1000000, no assets and 1000 a year the
  linear solution is 1000 years, and the row reports \<open>Infinity\<close>.
\<close>

theorem C7_counterexample:
  "(0::real) < 1000
   \<and> reportedYears 0 1000000 0 1000 = Infinity
   \<and> reportedYears 0 1000000 0 1000 \<noteq> Finite ((1000000 - 0) / 1000)"
  by (simp add: reportedYears_def solveYears_def finalYears_def)


end
